theory Spec2Isabelle
  imports Complex_Main
begin

section \<open>Rice Doctor AI: the diagnostic script of \<^verbatim>\<open>app.py\<close>\<close>

text \<open>
  The script is a Streamlit page. Everything it does beyond computing values is a call to
  a collaborator: Streamlit (widgets and messages), Pillow (opening and saving images),
  \<^verbatim>\<open>tempfile\<close>/\<^verbatim>\<open>os\<close> (the staging file) and the YOLO classifier. These calls are
  modelled as updates of an explicit \<open>world\<close>, exceptions as values of \<open>exn\<close>, and what the
  collaborators answer as the fields of an environment \<open>env\<close>.
\<close>

subsection \<open>Data\<close>

text \<open>The exceptions the script can meet.\<close>

datatype exn =
    FileNotFoundError
  | FileExistsError
  | OSError string
  | ValueError string
  | UnidentifiedImageError
  | KeyError
  | IndexError
  | AttributeError
  | NameError
  | RuntimeError string

text \<open>
  A message handed to Streamlit. An f-string is the list of its pieces: literal text,
  an emoji (named by its code points, the file being ASCII), and a float formatted with
  \<^verbatim>\<open>:.1f\<close>, kept as the number that is formatted.
\<close>

datatype piece = Txt string | Emoji string | Fixed1 real

type_synonym msg = "piece list"

text \<open>A PIL image: the format of the file it was read from (\<^verbatim>\<open>"PNG"\<close>, \<^verbatim>\<open>"JPEG"\<close>,
  or \<^verbatim>\<open>None\<close>), its mode (\<^verbatim>\<open>"RGB"\<close>, \<^verbatim>\<open>"RGBA"\<close>, ...), its size and its pixel data.\<close>

record image =
  format :: "string option"
  mode :: string
  width :: nat
  height :: nat
  pixels :: "nat list"

text \<open>The calls to Streamlit, in the order they are made.\<close>

datatype st_call =
    St_set_page_config msg msg
  | St_title msg
  | St_markdown msg
  | St_info msg
  | St_error msg
  | St_success msg
  | St_warning msg
  | St_image image msg bool
  | St_spinner msg
  | St_expander msg bool
  | St_tabs "msg list"
  | St_camera_input msg
  | St_file_uploader msg "string list"
  | St_button msg
  | St_stop

text \<open>A loaded classifier: the object \<^verbatim>\<open>YOLO("best.pt")\<close> returns, named by its identity.\<close>

datatype handle = Handle nat

text \<open>
  One element of what \<^verbatim>\<open>model(path)\<close> returns: \<^verbatim>\<open>names\<close> maps a class index to its
  label, \<^verbatim>\<open>probs\<close> holds the class probabilities (\<^verbatim>\<open>None\<close> for a model that is not a
  classifier).
\<close>

record result =
  names :: "(nat \<times> string) list"
  probs :: "real list option"

text \<open>A file on disk: created or truncated and still empty, or holding an image written
  in a format (\<^verbatim>\<open>"JPEG"\<close>, \<^verbatim>\<open>"PNG"\<close>).\<close>

datatype file_content = Empty_file | Encoded string image

text \<open>The calls made to the classifier library.\<close>

datatype yolo_call = Construct string | Predict handle string

text \<open>A file handed over by a capture or upload widget.\<close>

record uploaded_file =
  file_name :: string
  file_bytes :: "nat list"

text \<open>A treatment record is a dictionary from field name to text; the knowledge base maps
  a label to its treatment record. Both are written in the order of the source literal.\<close>

type_synonym treatment_record = "(string \<times> string) list"

type_synonym knowledge_base = "(string \<times> treatment_record) list"

text \<open>
  The state of the process: the files on disk, the Streamlit calls made so far, the entry
  of \<^verbatim>\<open>st.cache_resource\<close> for \<^verbatim>\<open>load_model\<close>, the calls made to the classifier library,
  and the two module globals \<^verbatim>\<open>model\<close> and \<^verbatim>\<open>rice_consultant\<close> (unbound before their
  assignment).
\<close>

record world =
  files :: "string \<rightharpoonup> file_content"
  ui :: "st_call list"
  resource_cache :: "handle option"
  calls :: "yolo_call list"
  model :: "handle option"
  rice_consultant :: "knowledge_base option"

text \<open>
  What the collaborators answer: the constructor \<^verbatim>\<open>YOLO(path)\<close> (which may answer
  differently at each construction, so it sees the calls made before), inference on a
  staged file, \<^verbatim>\<open>Image.open\<close>, the temporary directory and the random draws from which
  \<^verbatim>\<open>tempfile\<close> makes its candidate names, one list of draws for each candidate.
\<close>

record env =
  YOLO :: "yolo_call list \<Rightarrow> string \<Rightarrow> exn + handle"
  predict :: "handle \<Rightarrow> file_content \<Rightarrow> exn + result list"
  Image_open :: "uploaded_file \<Rightarrow> exn + image"
  gettempdir :: string
  name_draws :: "nat list list"

subsection \<open>The knowledge base\<close>

definition rice_consultant_literal :: knowledge_base where
  "rice_consultant_literal =
    [(''Brown Spot'',
       [(''type'', ''Fungal Infection (Cochliobolus miyabeanus)''),
        (''cause'', ''Often linked to Potassium (K) & Silicon (Si) deficiency.''),
        (''remedy'', ''Spray Propiconazole (1ml/liter).''),
        (''prevention'', ''Boost Potassium (K) to thicken cell walls. Apply Calcium Silicate.'')]),
     (''Leaf Blast'',
       [(''type'', ''Fungal Infection (Magnaporthe oryzae)''),
        (''cause'', ''Triggered by Excess Nitrogen (toxic).''),
        (''remedy'', ''Spray Tricyclazole 75 WP.''),
        (''prevention'', ''Avoid excess Urea. Split N application into 3-4 doses.'')]),
     (''Bacterial Leaf Blight'',
       [(''type'', ''Bacterial Infection (Xanthomonas oryzae)''),
        (''cause'', ''High Nitrogen + High Humidity.''),
        (''remedy'', ''Drain field. Spray Copper Oxychloride + Streptocycline.''),
        (''prevention'', ''Maintain proper drainage. Avoid late-stage Nitrogen.'')]),
     (''Tungro'',
       [(''type'', ''Viral Disease (Vector: Green Leafhopper)''),
        (''cause'', ''Spread by Leafhoppers.''),
        (''remedy'', ''Control vector with Imidacloprid.''),
        (''prevention'', ''Use resistant varieties (like IR36). Synchronous planting.'')]),
     (''Khaira'',
       [(''type'', ''Abiotic Stress (Micronutrient Deficiency)''),
        (''cause'', ''Zinc (Zn) Deficiency. Common in high pH soils.''),
        (''remedy'', ''Apply Zinc Sulphate (25kg/ha) + Urea spray.''),
        (''prevention'', ''Basal application of Zinc Sulphate. Green manuring (Dhaincha).'')])]"

text \<open>\<^verbatim>\<open>d.get(k)\<close>: the value, or \<^verbatim>\<open>None\<close>.\<close>

definition dict_get :: "('k \<times> 'v) list \<Rightarrow> 'k \<Rightarrow> 'v option" where
  "dict_get d k = map_of d k"

text \<open>\<^verbatim>\<open>d[k]\<close>: the value, or \<^verbatim>\<open>KeyError\<close>.\<close>

definition dict_item :: "('k \<times> 'v) list \<Rightarrow> 'k \<Rightarrow> exn + 'v" where
  "dict_item d k = (case map_of d k of None \<Rightarrow> Inl KeyError | Some v \<Rightarrow> Inr v)"

subsection \<open>The staging file\<close>

text \<open>Appending one Streamlit call to the page.\<close>

definition st :: "st_call \<Rightarrow> world \<Rightarrow> world" where
  "st c w = w\<lparr>ui := ui w @ [c]\<rparr>"

text \<open>
  \<^verbatim>\<open>tempfile\<close> tries the candidate names in turn and creates the first file that does not
  exist yet (the file is opened with \<^verbatim>\<open>O_EXCL\<close>); when every candidate exists it raises
  \<^verbatim>\<open>FileExistsError\<close>.
\<close>

fun mkstemp_inner ::
  "string list \<Rightarrow> string \<Rightarrow> string \<Rightarrow> string \<Rightarrow> (string \<rightharpoonup> file_content) \<Rightarrow> exn + string" where
  "mkstemp_inner [] dir pre suf fs = Inl FileExistsError"
| "mkstemp_inner (name # rest) dir pre suf fs =
     (let file = dir @ ''/'' @ pre @ name @ suf
      in if fs file \<noteq> None then mkstemp_inner rest dir pre suf fs else Inr file)"

text \<open>A candidate name is made of characters drawn from \<^verbatim>\<open>_RandomNameSequence.characters\<close>.\<close>

definition characters :: string where
  "characters = ''abcdefghijklmnopqrstuvwxyz0123456789_''"

definition random_name :: "nat list \<Rightarrow> string" where
  "random_name draws = map (\<lambda>i. characters ! (i mod length characters)) draws"

text \<open>\<^verbatim>\<open>tempfile.NamedTemporaryFile(delete=False, suffix=suffix)\<close>: the new, empty file's name.\<close>

definition NamedTemporaryFile :: "env \<Rightarrow> string \<Rightarrow> world \<Rightarrow> (exn + string) \<times> world" where
  "NamedTemporaryFile e suffix w =
     (case mkstemp_inner (map random_name (name_draws e)) (gettempdir e) ''tmp'' suffix (files w) of
        Inl x \<Rightarrow> (Inl x, w)
      | Inr name \<Rightarrow> (Inr name, w\<lparr>files := (files w)(name \<mapsto> Empty_file)\<rparr>))"

text \<open>
  \<^verbatim>\<open>os.path.splitext(p)[1]\<close>: the text from the last dot of the last path component on,
  empty when that component has no dot or only leading dots.
\<close>

definition splitext_ext :: "string \<Rightarrow> string" where
  "splitext_ext p =
     (let r = takeWhile (\<lambda>c. c \<noteq> CHR ''.'' \<and> c \<noteq> CHR ''/'') (rev p);
          rest = drop (length r) (rev p)
      in case rest of
           [] \<Rightarrow> []
         | c # before \<Rightarrow>
             if c = CHR ''.'' \<and> list_ex (\<lambda>d. d \<noteq> CHR ''.'') (takeWhile (\<lambda>d. d \<noteq> CHR ''/'') before)
             then CHR ''.'' # rev r else [])"

text \<open>\<^verbatim>\<open>str.lower\<close> on ASCII text.\<close>

definition lower :: "string \<Rightarrow> string" where
  "lower s = map (\<lambda>c. if 65 \<le> (of_char c :: nat) \<and> (of_char c :: nat) \<le> 90
                       then char_of ((of_char c :: nat) + 32) else c) s"

text \<open>
  Pillow's tables, for the two formats the page's uploader accepts: the extensions
  registered for a format, and the modes the format's writer accepts
  (\<^verbatim>\<open>RAWMODE\<close> of the JPEG plugin, \<^verbatim>\<open>_OUTMODES\<close> of the PNG plugin).
\<close>

definition EXTENSION :: "(string \<times> string) list" where
  "EXTENSION =
     [(''.jfif'', ''JPEG''), (''.jpe'', ''JPEG''), (''.jpg'', ''JPEG''), (''.jpeg'', ''JPEG''),
      (''.png'', ''PNG''), (''.apng'', ''PNG'')]"

definition RAWMODE :: "string list" where
  "RAWMODE = [''1'', ''L'', ''RGB'', ''RGBX'', ''CMYK'', ''YCbCr'']"

definition OUTMODES :: "string list" where
  "OUTMODES = [''1'', ''L'', ''LA'', ''I'', ''I;16'', ''I;16B'', ''P'', ''RGB'', ''RGBA'']"

definition writer_modes :: "(string \<times> string list) list" where
  "writer_modes = [(''JPEG'', RAWMODE), (''PNG'', OUTMODES)]"

text \<open>
  \<^verbatim>\<open>Image.save(filename)\<close>: the format is chosen from the extension of the file name,
  never from the image; the file is opened for writing, which truncates it; the writer
  refuses an empty image (JPEG) and a mode it cannot write. Pillow removes the file after a
  failed write only when \<^verbatim>\<open>save\<close> itself created it.
\<close>

definition Image_save :: "image \<Rightarrow> string \<Rightarrow> world \<Rightarrow> (exn + unit) \<times> world" where
  "Image_save im filename w =
     (case map_of EXTENSION (lower (splitext_ext filename)) of
        None \<Rightarrow> (Inl (ValueError (''unknown file extension: '' @ lower (splitext_ext filename))), w)
      | Some fmt \<Rightarrow>
          (let created = (files w filename = None);
               w1 = w\<lparr>files := (files w)(filename \<mapsto> Empty_file)\<rparr>;
               failed = (if created then w else w1)
           in if fmt = ''JPEG'' \<and> (width im = 0 \<or> height im = 0)
              then (Inl (ValueError ''cannot write empty image as JPEG''), failed)
              else (case map_of writer_modes fmt of
                      None \<Rightarrow> (Inl KeyError, failed)
                    | Some modes \<Rightarrow>
                        if mode im \<in> set modes
                        then (Inr (), w\<lparr>files := (files w)(filename \<mapsto> Encoded fmt im)\<rparr>)
                        else (Inl (OSError (''cannot write mode '' @ mode im @ '' as '' @ fmt)),
                              failed))))"

text \<open>\<^verbatim>\<open>os.remove(path)\<close>.\<close>

definition os_remove :: "string \<Rightarrow> world \<Rightarrow> (exn + unit) \<times> world" where
  "os_remove path w =
     (if files w path = None then (Inl FileNotFoundError, w)
      else (Inr (), w\<lparr>files := (files w)(path := None)\<rparr>))"

text \<open>
  The block \<^verbatim>\<open># Save temp file for YOLO\<close> of \<^verbatim>\<open>diagnose\<close>: the temporary file is
  created with \<^verbatim>\<open>delete=False\<close>, so leaving the \<^verbatim>\<open>with\<close> block closes it and keeps it,
  also when \<^verbatim>\<open>save\<close> raises. The value is \<^verbatim>\<open>tmp_path\<close>.
\<close>

definition save_temp_file :: "env \<Rightarrow> image \<Rightarrow> world \<Rightarrow> (exn + string) \<times> world" where
  "save_temp_file e image_source w =
     (case NamedTemporaryFile e ''.jpg'' w of
        (Inl x, w1) \<Rightarrow> (Inl x, w1)
      | (Inr tmp_name, w1) \<Rightarrow>
          (case Image_save image_source tmp_name w1 of
             (Inl x, w2) \<Rightarrow> (Inl x, w2)
           | (Inr u, w2) \<Rightarrow> (Inr tmp_name, w2)))"

subsection \<open>The classifier\<close>

text \<open>
  \<^verbatim>\<open>load_model\<close> under \<^verbatim>\<open>@st.cache_resource\<close>: a cached value is returned as it is;
  otherwise the body runs, \<^verbatim>\<open>YOLO("best.pt")\<close>, and its value is cached. An exception of
  the body is not cached.
\<close>

definition load_model :: "env \<Rightarrow> world \<Rightarrow> (exn + handle) \<times> world" where
  "load_model e w =
     (case resource_cache w of
        Some h \<Rightarrow> (Inr h, w)
      | None \<Rightarrow>
          (case YOLO e (calls w) ''best.pt'' of
             Inl x \<Rightarrow> (Inl x, w\<lparr>calls := calls w @ [Construct ''best.pt'']\<rparr>)
           | Inr h \<Rightarrow>
               (Inr h, w\<lparr>calls := calls w @ [Construct ''best.pt''],
                          resource_cache := Some h\<rparr>)))"

text \<open>\<^verbatim>\<open>model(tmp_path)\<close>: inference by the global \<^verbatim>\<open>model\<close> on the file at the path.\<close>

definition call_model :: "env \<Rightarrow> string \<Rightarrow> world \<Rightarrow> (exn + result list) \<times> world" where
  "call_model e path w =
     (case model w of
        None \<Rightarrow> (Inl NameError, w)
      | Some h \<Rightarrow>
          (let w1 = w\<lparr>calls := calls w @ [Predict h path]\<rparr>
           in case files w path of
                None \<Rightarrow> (Inl FileNotFoundError, w1)
              | Some content \<Rightarrow> (predict e h content, w1)))"

text \<open>
  \<^verbatim>\<open>Probs.top1\<close> is \<^verbatim>\<open>int(data.argmax())\<close>: the index of the first maximal entry; it
  raises on no entries. \<open>argmax_from xs i b v\<close> scans \<open>xs\<close>, whose first entry has index
  \<open>i\<close>, with the best index \<open>b\<close> and the best value \<open>v\<close> so far.
\<close>

fun argmax_from :: "real list \<Rightarrow> nat \<Rightarrow> nat \<Rightarrow> real \<Rightarrow> nat" where
  "argmax_from [] i b v = b"
| "argmax_from (x # xs) i b v =
     (if v < x then argmax_from xs (Suc i) i x else argmax_from xs (Suc i) b v)"

definition top1 :: "real list \<Rightarrow> exn + nat" where
  "top1 data =
     (case data of
        [] \<Rightarrow> Inl (RuntimeError ''argmax of an empty tensor'')
      | x # xs \<Rightarrow> Inr (argmax_from xs 1 0 x))"

text \<open>\<^verbatim>\<open>Probs.top1conf\<close> is \<^verbatim>\<open>data[top1]\<close>.\<close>

definition top1conf :: "real list \<Rightarrow> exn + real" where
  "top1conf data = (case top1 data of Inl x \<Rightarrow> Inl x | Inr i \<Rightarrow> Inr (data ! i))"

text \<open>
  The block \<^verbatim>\<open># Extract Results\<close> of \<^verbatim>\<open>diagnose\<close>; the value is
  \<^verbatim>\<open>(pred_name, conf)\<close>. Probabilities are real numbers here, not floats.
\<close>

definition extract_results :: "result list \<Rightarrow> exn + (string \<times> real)" where
  "extract_results results =
     (case results of
        [] \<Rightarrow> Inl IndexError
      | r0 # _ \<Rightarrow>
          (case probs r0 of
             None \<Rightarrow> Inl AttributeError
           | Some data \<Rightarrow>
               (case top1 data of
                  Inl x \<Rightarrow> Inl x
                | Inr top_idx \<Rightarrow>
                    (case dict_item (names r0) top_idx of
                       Inl x \<Rightarrow> Inl x
                     | Inr pred_name \<Rightarrow>
                         (case top1conf data of
                            Inl x \<Rightarrow> Inl x
                          | Inr c \<Rightarrow> Inr (pred_name, c * 100))))))"

subsection \<open>The diagnostic function\<close>

text \<open>
  The branch \<^verbatim>\<open>if advice:\<close> of \<^verbatim>\<open>diagnose\<close>: the four fields of the treatment record
  are read and shown in turn inside the expander.
\<close>

definition show_advice :: "treatment_record \<Rightarrow> world \<Rightarrow> (exn + unit) \<times> world" where
  "show_advice advice w =
     (let w1 = st (St_expander [Emoji ''U+1F4CB'', Txt '' View Treatment Plan''] True) w
      in case dict_item advice ''type'' of
           Inl x \<Rightarrow> (Inl x, w1)
         | Inr t \<Rightarrow>
      (let w2 = st (St_markdown [Txt ''**Type:** '', Txt t]) w1
      in case dict_item advice ''cause'' of
           Inl x \<Rightarrow> (Inl x, w2)
         | Inr c \<Rightarrow>
      (let w3 = st (St_error [Txt ''**'', Emoji ''U+274C'', Txt '' Root Cause:** '', Txt c]) w2
      in case dict_item advice ''remedy'' of
           Inl x \<Rightarrow> (Inl x, w3)
         | Inr r \<Rightarrow>
      (let w4 = st (St_success [Txt ''**'', Emoji ''U+1F48A'', Txt '' Remedy:** '', Txt r]) w3
      in case dict_item advice ''prevention'' of
           Inl x \<Rightarrow> (Inl x, w4)
         | Inr p \<Rightarrow>
             (Inr (), st (St_info [Txt ''**'', Emoji ''U+1F6E1 U+FE0F'',
                                   Txt '' Prevention:** '', Txt p]) w4)))))"

text \<open>
  The part of \<^verbatim>\<open>diagnose\<close> after the spinner: \<^verbatim>\<open># Display Diagnosis\<close> and
  \<^verbatim>\<open># Get Advice\<close>. An empty dictionary is false in a condition, as \<^verbatim>\<open>None\<close> is.
\<close>

definition display_and_advise :: "string \<Rightarrow> real \<Rightarrow> world \<Rightarrow> (exn + unit) \<times> world" where
  "display_and_advise pred_name conf w =
     (let w1 = st (St_success [Txt ''**Diagnosis: '', Txt pred_name, Txt ''** ('', Fixed1 conf,
                               Txt ''%)'']) w
      in case rice_consultant w1 of
           None \<Rightarrow> (Inl NameError, w1)
         | Some kb \<Rightarrow>
             (case dict_get kb pred_name of
                None \<Rightarrow> (Inr (), st (St_warning [Txt ''No specific advice available.'']) w1)
              | Some advice \<Rightarrow>
                  if advice \<noteq> [] then show_advice advice w1
                  else (Inr (), st (St_warning [Txt ''No specific advice available.'']) w1)))"

text \<open>\<^verbatim>\<open>diagnose(image_source)\<close>. An exception leaves the function where it is raised.\<close>

definition diagnose :: "env \<Rightarrow> image \<Rightarrow> world \<Rightarrow> (exn + unit) \<times> world" where
  "diagnose e image_source w =
     (let w1 = st (St_image image_source [Txt ''Analyzing Leaf...''] True) w;
          w2 = st (St_spinner [Emoji ''U+1F916'', Txt '' AI is analyzing symptoms...'']) w1
      in case save_temp_file e image_source w2 of
           (Inl x, w3) \<Rightarrow> (Inl x, w3)
         | (Inr tmp_path, w3) \<Rightarrow>
             (case call_model e tmp_path w3 of
                (Inl x, w4) \<Rightarrow> (Inl x, w4)
              | (Inr results, w4) \<Rightarrow>
                  (case os_remove tmp_path w4 of
                     (Inl x, w5) \<Rightarrow> (Inl x, w5)
                   | (Inr u, w5) \<Rightarrow>
                       (case extract_results results of
                          Inl x \<Rightarrow> (Inl x, w5)
                        | Inr (pred_name, conf) \<Rightarrow> display_and_advise pred_name conf w5))))"

subsection \<open>The script\<close>

text \<open>What the widgets return in one run of the script.\<close>

record inputs =
  cam_img :: "uploaded_file option"
  up_file :: "uploaded_file option"
  analyze_clicked :: bool

text \<open>How a run ends: at the end of the script, at \<^verbatim>\<open>st.stop()\<close>, or with an exception.\<close>

datatype outcome = Completed | Stopped | Raised exn

text \<open>The body of \<^verbatim>\<open>with tab1:\<close>.\<close>

definition tab1 :: "env \<Rightarrow> inputs \<Rightarrow> world \<Rightarrow> (exn + unit) \<times> world" where
  "tab1 e inp w =
     (let w1 = st (St_camera_input [Txt ''Tap to Snap'']) w
      in case cam_img inp of
           None \<Rightarrow> (Inr (), w1)
         | Some f \<Rightarrow>
             (case Image_open e f of
                Inl x \<Rightarrow> (Inl x, w1)
              | Inr img \<Rightarrow> diagnose e img w1))"

text \<open>The body of \<^verbatim>\<open>with tab2:\<close>.\<close>

definition tab2 :: "env \<Rightarrow> inputs \<Rightarrow> world \<Rightarrow> (exn + unit) \<times> world" where
  "tab2 e inp w =
     (let w1 = st (St_file_uploader [Txt ''Upload Image''] [''jpg'', ''png'', ''jpeg'']) w
      in case up_file inp of
           None \<Rightarrow> (Inr (), w1)
         | Some f \<Rightarrow>
             (case Image_open e f of
                Inl x \<Rightarrow> (Inl x, w1)
              | Inr img \<Rightarrow>
                  (let w2 = st (St_button [Txt ''Analyze Image'']) w1
                   in if analyze_clicked inp then diagnose e img w2 else (Inr (), w2))))"

text \<open>
  One run of the script, top to bottom. The module globals are unbound when a run starts;
  the files, the resource cache and the record of calls are those of the process.
\<close>

definition run_script :: "env \<Rightarrow> inputs \<Rightarrow> world \<Rightarrow> outcome \<times> world" where
  "run_script e inp w =
     (let w0 = w\<lparr>model := None, rice_consultant := None\<rparr>;
          w1 = st (St_set_page_config [Txt ''Rice Doctor AI''] [Emoji ''U+1F33E'']) w0;
          w2 = w1\<lparr>rice_consultant := Some rice_consultant_literal\<rparr>;
          w3 = st (St_title [Emoji ''U+1F33E'', Txt '' Rice Doctor AI'']) w2;
          w4 = st (St_markdown [Txt ''**Real-time Diagnostic System**'']) w3;
          w5 = st (St_info [Emoji ''U+1F4A1'', Txt '' Point camera at leaf for instant analysis.'']) w4
      in case load_model e w5 of
           (Inl x, w6) \<Rightarrow>
             (Stopped,
              st St_stop
                (st (St_error [Emoji ''U+26A0 U+FE0F'',
                       Txt '' Model not found! Please run the 'Move Model' code first.'']) w6))
         | (Inr h, w6) \<Rightarrow>
             (let w7 = w6\<lparr>model := Some h\<rparr>;
                  w8 = st (St_tabs [ [Emoji ''U+1F4F8'', Txt '' Live Camera''],
                                    [Emoji ''U+1F4C2'', Txt '' Gallery Upload''] ]) w7
              in case tab1 e inp w8 of
                   (Inl x, w9) \<Rightarrow> (Raised x, w9)
                 | (Inr u, w9) \<Rightarrow>
                     (case tab2 e inp w9 of
                        (Inl x, w10) \<Rightarrow> (Raised x, w10)
                      | (Inr u, w10) \<Rightarrow> (Completed, w10))))"

text \<open>Several runs of the script in one process, one after the other.\<close>

fun run_session :: "env \<Rightarrow> inputs list \<Rightarrow> world \<Rightarrow> world" where
  "run_session e [] w = w"
| "run_session e (inp # rest) w = run_session e rest (snd (run_script e inp w))"

text \<open>
  The name \<^verbatim>\<open>diagnose\<close> gets for its staging file in a world: what
  \<^verbatim>\<open>NamedTemporaryFile\<close> picks for the suffix \<^verbatim>\<open>".jpg"\<close>.
\<close>

definition staged_name :: "env \<Rightarrow> world \<Rightarrow> exn + string" where
  "staged_name e w =
     mkstemp_inner (map random_name (name_draws e)) (gettempdir e) ''tmp'' ''.jpg'' (files w)"

subsection \<open>Example inputs\<close>

text \<open>
  Two photographs, a JPEG in mode RGB and a PNG with an alpha channel; an environment whose
  temporary directory is \<^verbatim>\<open>/tmp\<close>, given what inference answers; and the world after a
  successful load of the model, with no file on disk.
\<close>

definition leaf_rgb :: image where
  "leaf_rgb = \<lparr>format = Some ''JPEG'', mode = ''RGB'', width = 640, height = 480, pixels = []\<rparr>"

definition leaf_rgba :: image where
  "leaf_rgba = \<lparr>format = Some ''PNG'', mode = ''RGBA'', width = 640, height = 480, pixels = []\<rparr>"

definition example_env :: "(handle \<Rightarrow> file_content \<Rightarrow> exn + result list) \<Rightarrow> env" where
  "example_env answer =
     \<lparr>YOLO = (\<lambda>before path. Inr (Handle 1)),
      predict = answer,
      Image_open = (\<lambda>f. Inl UnidentifiedImageError),
      gettempdir = ''/tmp'',
      name_draws = [ [0, 1, 2, 3, 4, 5, 6, 7], [8, 9, 10, 11, 12, 13, 14, 15] ]\<rparr>"

definition loaded_world :: world where
  "loaded_world =
     \<lparr>files = Map.empty, ui = [], resource_cache = Some (Handle 1),
      calls = [Construct ''best.pt''], model = Some (Handle 1),
      rice_consultant = Some rice_consultant_literal\<rparr>"

text \<open>
  Two answers of the classifier: one whose top class, \<^verbatim>\<open>Healthy\<close>, has no entry in the
  knowledge base, and the distribution Leaf Blast 0.87, Brown Spot 0.09, Tungro 0.04.
\<close>

definition unknown_label_result :: result where
  "unknown_label_result = \<lparr>names = [(0, ''Healthy''), (1, ''Leaf Blast'')], probs = Some [0.75, 0.25]\<rparr>"

definition leaf_blast_result :: result where
  "leaf_blast_result =
     \<lparr>names = [(0, ''Leaf Blast''), (1, ''Brown Spot''), (2, ''Tungro'')],
      probs = Some [0.87, 0.09, 0.04]\<rparr>"

text \<open>
  An environment in which \<^verbatim>\<open>best.pt\<close> is missing, the world of a process that has just
  started, and a run in which a photograph was taken with the camera.
\<close>

definition missing_model_env :: env where
  "missing_model_env =
     \<lparr>YOLO = (\<lambda>before path. Inl FileNotFoundError),
      predict = (\<lambda>h c. Inr [leaf_blast_result]),
      Image_open = (\<lambda>f. Inr leaf_rgb),
      gettempdir = ''/tmp'',
      name_draws = [ [0, 1, 2, 3, 4, 5, 6, 7] ]\<rparr>"

definition fresh_world :: world where
  "fresh_world =
     \<lparr>files = Map.empty, ui = [], resource_cache = None, calls = [], model = None,
      rice_consultant = None\<rparr>"

definition camera_shot :: inputs where
  "camera_shot =
     \<lparr>cam_img = Some \<lparr>file_name = ''camera.jpg'', file_bytes = [255, 216, 255]\<rparr>,
      up_file = None, analyze_clicked = False\<rparr>"

text \<open>
  An environment in which \<^verbatim>\<open>best.pt\<close> is missing at the first construction and in place
  afterwards, and one in which every inference raises and each construction would give a
  new model object.
\<close>

definition restored_model_env :: env where
  "restored_model_env =
     \<lparr>YOLO = (\<lambda>before path. if before = [] then Inl FileNotFoundError else Inr (Handle 1)),
      predict = (\<lambda>h c. Inr [leaf_blast_result]),
      Image_open = (\<lambda>f. Inr leaf_rgb),
      gettempdir = ''/tmp'',
      name_draws = [ [0, 1, 2, 3, 4, 5, 6, 7] ]\<rparr>"


text \<open>The calls to the classifier library that are inferences, and those that construct
  a model.\<close>

fun is_predict :: "yolo_call \<Rightarrow> bool" where
  "is_predict (Predict h p) = True"
| "is_predict (Construct p) = False"

fun is_construct :: "yolo_call \<Rightarrow> bool" where
  "is_construct (Construct p) = True"
| "is_construct (Predict h p) = False"


section \<open>Properties\<close>

subsection \<open>The knowledge base\<close>

text \<open>
  Claim C2. For each of the five labels Brown Spot, Leaf Blast, Bacterial Leaf Blight,
  Tungro and Khaira, the lookup in the knowledge base returns a treatment record in which
  each of the four fields type, cause, remedy and prevention is present and is not empty.
\<close>

theorem lookup_known_labels:
  "label \<in> {''Brown Spot'', ''Leaf Blast'', ''Bacterial Leaf Blight'', ''Tungro'', ''Khaira''} \<Longrightarrow>
   \<exists>r. dict_get rice_consultant_literal label = Some r \<and>
       (\<forall>f \<in> {''type'', ''cause'', ''remedy'', ''prevention''}.
          \<exists>v. dict_item r f = Inr v \<and> v \<noteq> [])"
  by (auto simp: dict_get_def dict_item_def rice_consultant_literal_def)

theorem lookup_known_labels_witness:
  "''Khaira'' \<in> {''Brown Spot'', ''Leaf Blast'', ''Bacterial Leaf Blight'', ''Tungro'', ''Khaira''} \<and>
   (\<exists>r. dict_get rice_consultant_literal ''Khaira'' = Some r \<and>
       (\<forall>f \<in> {''type'', ''cause'', ''remedy'', ''prevention''}.
          \<exists>v. dict_item r f = Inr v \<and> v \<noteq> []))"
  using lookup_known_labels [of "''Khaira''"] by simp

subsection \<open>The staging file\<close>

text \<open>A candidate name has no path separator, so the staged name keeps the extension
  \<^verbatim>\<open>.jpg\<close> and Pillow writes JPEG.\<close>

lemma random_name_no_sep: "CHR ''/'' \<notin> set (random_name draws)"
proof -
  have "characters ! (i mod length characters) \<in> set characters" for i
    by (rule nth_mem) (simp add: characters_def)
  moreover have "CHR ''/'' \<notin> set characters"
    by (simp add: characters_def)
  ultimately show ?thesis
    by (auto simp: random_name_def)
qed

lemma splitext_ext_staged:
  assumes "CHR ''/'' \<notin> set name"
  shows "splitext_ext (dir @ ''/'' @ ''tmp'' @ name @ ''.jpg'') = ''.jpg''"
proof -
  have "takeWhile (\<lambda>d. d \<noteq> CHR ''/'') (rev name @ ''pmt/'' @ rev dir) = rev name @ ''pmt''"
    using assms by (subst takeWhile_append2) auto
  then show ?thesis
    by (simp add: splitext_ext_def)
qed

lemma mkstemp_inner_fresh:
  "mkstemp_inner cands dir pre suf fs = Inr p \<Longrightarrow>
     fs p = None \<and> (\<exists>name \<in> set cands. p = dir @ ''/'' @ pre @ name @ suf)"
  by (induction cands) (auto simp: Let_def split: if_splits)

lemma map_of_staged_ext:
  assumes "mkstemp_inner (map random_name ds) dir ''tmp'' ''.jpg'' fs = Inr p"
  shows "map_of EXTENSION (lower (splitext_ext p)) = Some ''JPEG''"
proof -
  from mkstemp_inner_fresh [OF assms] obtain name where
    n: "name \<in> set (map random_name ds)" and p: "p = dir @ ''/'' @ ''tmp'' @ name @ ''.jpg''"
    by blast
  from n have "CHR ''/'' \<notin> set name"
    using random_name_no_sep by auto
  then have "splitext_ext p = ''.jpg''"
    unfolding p by (rule splitext_ext_staged)
  then show ?thesis
    by (simp add: lower_def EXTENSION_def)
qed

lemma save_temp_file_no_name:
  assumes "staged_name e w = Inl x"
  shows "save_temp_file e img w = (Inl x, w)"
  using assms by (simp add: save_temp_file_def NamedTemporaryFile_def staged_name_def)

lemma Image_save_jpeg:
  assumes "map_of EXTENSION (lower (splitext_ext p)) = Some ''JPEG''" and "files w p = Some c"
  shows "Image_save img p w =
     (if width img = 0 \<or> height img = 0
      then (Inl (ValueError ''cannot write empty image as JPEG''),
            w\<lparr>files := (files w)(p \<mapsto> Empty_file)\<rparr>)
      else if mode img \<in> set RAWMODE
      then (Inr (), w\<lparr>files := (files w)(p \<mapsto> Encoded ''JPEG'' img)\<rparr>)
      else (Inl (OSError (''cannot write mode '' @ mode img @ '' as JPEG'')),
            w\<lparr>files := (files w)(p \<mapsto> Empty_file)\<rparr>))"
  using assms by (simp add: Image_save_def writer_modes_def Let_def)

lemma save_temp_file_named:
  assumes "staged_name e w = Inr p"
  shows "save_temp_file e img w =
     (if width img = 0 \<or> height img = 0
      then (Inl (ValueError ''cannot write empty image as JPEG''),
            w\<lparr>files := (files w)(p \<mapsto> Empty_file)\<rparr>)
      else if mode img \<in> set RAWMODE
      then (Inr p, w\<lparr>files := (files w)(p \<mapsto> Encoded ''JPEG'' img)\<rparr>)
      else (Inl (OSError (''cannot write mode '' @ mode img @ '' as JPEG'')),
            w\<lparr>files := (files w)(p \<mapsto> Empty_file)\<rparr>))"
proof -
  have ext: "map_of EXTENSION (lower (splitext_ext p)) = Some ''JPEG''"
    using assms unfolding staged_name_def by (rule map_of_staged_ext)
  have nt: "NamedTemporaryFile e ''.jpg'' w = (Inr p, w\<lparr>files := (files w)(p \<mapsto> Empty_file)\<rparr>)"
    using assms by (simp add: NamedTemporaryFile_def staged_name_def)
  show ?thesis
    by (simp add: save_temp_file_def nt Image_save_jpeg [OF ext, where c = Empty_file])
qed

subsection \<open>What \<^verbatim>\<open>diagnose\<close> does, path by path\<close>

lemma staged_name_st [simp]: "staged_name e (st c w) = staged_name e w"
  by (simp add: staged_name_def st_def)

lemma staged_name_fresh: "staged_name e w = Inr p \<Longrightarrow> files w p = None"
  unfolding staged_name_def by (drule mkstemp_inner_fresh) simp

lemma staged_name_suffix: "staged_name e w = Inr p \<Longrightarrow> \<exists>stem. p = stem @ ''.jpg''"
  unfolding staged_name_def by (drule mkstemp_inner_fresh) auto

lemma diagnose_no_name:
  assumes "staged_name e w = Inl x"
  shows "diagnose e img w =
    (Inl x, w\<lparr>ui := ui w @ [St_image img [Txt ''Analyzing Leaf...''] True,
                             St_spinner [Emoji ''U+1F916'', Txt '' AI is analyzing symptoms...''] ]\<rparr>)"
proof -
  let ?w2 = "st (St_spinner [Emoji ''U+1F916'', Txt '' AI is analyzing symptoms...''])
               (st (St_image img [Txt ''Analyzing Leaf...''] True) w)"
  have "staged_name e ?w2 = Inl x" using assms by simp
  then have "save_temp_file e img ?w2 = (Inl x, ?w2)" by (rule save_temp_file_no_name)
  then show ?thesis
    by (simp add: diagnose_def Let_def) (simp add: st_def)
qed

lemma diagnose_named:
  assumes "staged_name e w = Inr p"
  shows "diagnose e img w =
    (let w2 = w\<lparr>ui := ui w @ [St_image img [Txt ''Analyzing Leaf...''] True,
                             St_spinner [Emoji ''U+1F916'', Txt '' AI is analyzing symptoms...''] ]\<rparr>
     in if width img = 0 \<or> height img = 0
        then (Inl (ValueError ''cannot write empty image as JPEG''),
              w2\<lparr>files := (files w)(p \<mapsto> Empty_file)\<rparr>)
        else if mode img \<notin> set RAWMODE
        then (Inl (OSError (''cannot write mode '' @ mode img @ '' as JPEG'')),
              w2\<lparr>files := (files w)(p \<mapsto> Empty_file)\<rparr>)
        else (case model w of
                None \<Rightarrow> (Inl NameError, w2\<lparr>files := (files w)(p \<mapsto> Encoded ''JPEG'' img)\<rparr>)
              | Some h \<Rightarrow>
                  (case predict e h (Encoded ''JPEG'' img) of
                     Inl x \<Rightarrow> (Inl x, w2\<lparr>files := (files w)(p \<mapsto> Encoded ''JPEG'' img),
                                          calls := calls w @ [Predict h p]\<rparr>)
                   | Inr results \<Rightarrow>
                       (case extract_results results of
                          Inl x \<Rightarrow> (Inl x, w2\<lparr>calls := calls w @ [Predict h p]\<rparr>)
                        | Inr (pred_name, conf) \<Rightarrow>
                            display_and_advise pred_name conf
                              (w2\<lparr>calls := calls w @ [Predict h p]\<rparr>)))))"
proof -
  let ?w2 = "st (St_spinner [Emoji ''U+1F916'', Txt '' AI is analyzing symptoms...''])
               (st (St_image img [Txt ''Analyzing Leaf...''] True) w)"
  have n: "staged_name e ?w2 = Inr p" using assms by simp
  have fresh: "files w p = None" using assms by (rule staged_name_fresh)
  have restored: "(files w)(p := None) = files w" using fresh by (simp add: fun_upd_idem)
  show ?thesis
    unfolding diagnose_def Let_def save_temp_file_named [OF n]
    by (simp add: call_model_def os_remove_def Let_def st_def restored
          split: option.splits sum.splits prod.splits)
qed

lemma show_advice_frame:
  "files (snd (show_advice advice w)) = files w \<and>
   calls (snd (show_advice advice w)) = calls w \<and>
   model (snd (show_advice advice w)) = model w \<and>
   resource_cache (snd (show_advice advice w)) = resource_cache w \<and>
   rice_consultant (snd (show_advice advice w)) = rice_consultant w"
  by (simp add: show_advice_def Let_def st_def split: sum.splits)

lemma display_and_advise_frame:
  "files (snd (display_and_advise l c w)) = files w \<and>
   calls (snd (display_and_advise l c w)) = calls w \<and>
   model (snd (display_and_advise l c w)) = model w \<and>
   resource_cache (snd (display_and_advise l c w)) = resource_cache w \<and>
   rice_consultant (snd (display_and_advise l c w)) = rice_consultant w"
  by (simp add: display_and_advise_def Let_def st_def show_advice_frame split: option.splits)

lemma display_and_advise_reports:
  "\<exists>more. ui (snd (display_and_advise l c w)) =
     ui w @ St_success [Txt ''**Diagnosis: '', Txt l, Txt ''** ('', Fixed1 c, Txt ''%)''] # more"
  by (simp add: display_and_advise_def show_advice_def Let_def st_def
        split: option.splits sum.splits)

lemma diagnose_frame:
  "model (snd (diagnose e img w)) = model w \<and>
   resource_cache (snd (diagnose e img w)) = resource_cache w \<and>
   rice_consultant (snd (diagnose e img w)) = rice_consultant w"
proof (cases "staged_name e w")
  case (Inl x)
  then show ?thesis by (simp add: diagnose_no_name)
next
  case (Inr p)
  then show ?thesis
    by (simp add: diagnose_named Let_def display_and_advise_frame
          split: option.splits sum.splits prod.splits)
qed

lemma diagnose_calls:
  "calls (snd (diagnose e img w)) = calls w \<or>
   (\<exists>h p. model w = Some h \<and> calls (snd (diagnose e img w)) = calls w @ [Predict h p])"
proof (cases "staged_name e w")
  case (Inl x)
  then show ?thesis by (simp add: diagnose_no_name)
next
  case (Inr p)
  then show ?thesis
    by (simp add: diagnose_named Let_def display_and_advise_frame
          split: option.splits sum.splits prod.splits)
qed

lemma diagnose_success_files:
  assumes "fst (diagnose e img w) = Inr u"
  shows "files (snd (diagnose e img w)) = files w"
proof (cases "staged_name e w")
  case (Inl x)
  with assms show ?thesis by (simp add: diagnose_no_name)
next
  case (Inr p)
  with assms show ?thesis
    by (simp add: diagnose_named Let_def display_and_advise_frame
          split: option.splits sum.splits prod.splits if_splits)
qed

subsection \<open>The example inputs\<close>

lemma leaf_rgb_fields:
  "mode leaf_rgb = ''RGB''" "width leaf_rgb = 640" "height leaf_rgb = 480"
  "mode (leaf_rgb\<lparr>format := f\<rparr>) = ''RGB''" "width (leaf_rgb\<lparr>format := f\<rparr>) = 640"
  "height (leaf_rgb\<lparr>format := f\<rparr>) = 480"
  by (simp_all add: leaf_rgb_def)

lemma leaf_rgba_fields:
  "mode leaf_rgba = ''RGBA''" "width leaf_rgba = 640" "height leaf_rgba = 480"
  by (simp_all add: leaf_rgba_def)

lemma loaded_world_fields:
  "files loaded_world = Map.empty" "ui loaded_world = []"
  "resource_cache loaded_world = Some (Handle 1)" "calls loaded_world = [Construct ''best.pt'']"
  "model loaded_world = Some (Handle 1)"
  "rice_consultant loaded_world = Some rice_consultant_literal"
  by (simp_all add: loaded_world_def)

lemma example_env_fields:
  "predict (example_env answer) = answer" "gettempdir (example_env answer) = ''/tmp''"
  "YOLO (example_env answer) = (\<lambda>before path. Inr (Handle 1))"
  "Image_open (example_env answer) = (\<lambda>f. Inl UnidentifiedImageError)"
  by (simp_all add: example_env_def)

lemma example_staged_name:
  "staged_name (example_env answer) loaded_world = Inr ''/tmp/tmpabcdefgh.jpg''"
  by (simp add: staged_name_def example_env_def loaded_world_def random_name_def characters_def)

lemma fresh_world_fields:
  "files fresh_world = Map.empty" "ui fresh_world = []" "resource_cache fresh_world = None"
  "calls fresh_world = []" "model fresh_world = None" "rice_consultant fresh_world = None"
  by (simp_all add: fresh_world_def)

subsection \<open>The staging file on the paths of \<^verbatim>\<open>diagnose\<close>\<close>

text \<open>
  Claim C1 says that the staging file is deleted on every exit path of \<^verbatim>\<open>diagnose\<close>.
  On the path of a successful call it is (\<open>diagnose_success_files\<close>). On the path where
  inference raises it is not: \<^verbatim>\<open>os.remove\<close> comes after the call of the model and is not
  reached, so the file that did not exist before the call exists after it, holding the
  staged image.
\<close>

theorem diagnose_inference_failure_keeps_staging_file:
  assumes "staged_name e w = Inr p"
    and "0 < width img" and "0 < height img" and "mode img \<in> set RAWMODE"
    and "model w = Some h"
    and "predict e h (Encoded ''JPEG'' img) = Inl x"
  shows "fst (diagnose e img w) = Inl x \<and>
         files w p = None \<and>
         files (snd (diagnose e img w)) p = Some (Encoded ''JPEG'' img)"
  using assms by (simp add: diagnose_named staged_name_fresh)

theorem diagnose_inference_failure_keeps_staging_file_witness:
  "fst (diagnose (example_env (\<lambda>h c. Inl (RuntimeError ''inference failed''))) leaf_rgb loaded_world) =
     Inl (RuntimeError ''inference failed'') \<and>
   files loaded_world ''/tmp/tmpabcdefgh.jpg'' = None \<and>
   files (snd (diagnose (example_env (\<lambda>h c. Inl (RuntimeError ''inference failed''))) leaf_rgb
                 loaded_world)) ''/tmp/tmpabcdefgh.jpg'' = Some (Encoded ''JPEG'' leaf_rgb)"
  by (rule diagnose_inference_failure_keeps_staging_file
       [where h = "Handle 1", OF example_staged_name])
     (simp_all add: leaf_rgb_fields RAWMODE_def loaded_world_fields example_env_fields)

text \<open>
  Claim C10. The staging file always has the suffix \<^verbatim>\<open>.jpg\<close> and is written as JPEG,
  whatever the format the image came from; so for an image whose mode the JPEG writer does
  not accept (RGBA, a PNG with an alpha channel, is one), \<^verbatim>\<open>diagnose\<close> fails while
  staging, and the classifier is never called.
\<close>

theorem staging_is_jpeg_whatever_the_input:
  "(\<forall>p w'. save_temp_file e img w = (Inr p, w') \<longrightarrow>
       (\<exists>stem. p = stem @ ''.jpg'') \<and> files w' p = Some (Encoded ''JPEG'' img)) \<and>
   (mode img \<notin> set RAWMODE \<longrightarrow>
       (\<exists>x. fst (diagnose e img w) = Inl x) \<and>
       calls (snd (diagnose e img w)) = calls w)"
proof (cases "staged_name e w")
  case (Inl x)
  then show ?thesis
    by (simp add: save_temp_file_no_name diagnose_no_name)
next
  case (Inr p)
  then show ?thesis
    using staged_name_suffix [OF Inr]
    by (auto simp add: save_temp_file_named diagnose_named Let_def split: if_splits)
qed

theorem staging_is_jpeg_whatever_the_input_witness:
  "mode leaf_rgba \<notin> set RAWMODE \<and>
   fst (diagnose (example_env (\<lambda>h c. Inr [])) leaf_rgba loaded_world) =
     Inl (OSError ''cannot write mode RGBA as JPEG'') \<and>
   calls (snd (diagnose (example_env (\<lambda>h c. Inr [])) leaf_rgba loaded_world)) = calls loaded_world \<and>
   save_temp_file (example_env (\<lambda>h c. Inr [])) (leaf_rgb\<lparr>format := Some ''PNG''\<rparr>) loaded_world =
     (Inr ''/tmp/tmpabcdefgh.jpg'',
      loaded_world\<lparr>files := [''/tmp/tmpabcdefgh.jpg'' \<mapsto> Encoded ''JPEG'' (leaf_rgb\<lparr>format := Some ''PNG''\<rparr>)]\<rparr>)"
  using staging_is_jpeg_whatever_the_input
    [of "example_env (\<lambda>h c. Inr [])" leaf_rgba loaded_world]
  by (simp add: diagnose_named [OF example_staged_name] save_temp_file_named [OF example_staged_name]
        leaf_rgba_fields leaf_rgb_fields RAWMODE_def loaded_world_fields)

subsection \<open>The top prediction\<close>

text \<open>The scan keeps the index of a maximal entry among those seen so far.\<close>

lemma argmax_from_max:
  assumes "i = length pre" "b < i" "v = pre ! b" "\<forall>j<i. pre ! j \<le> v"
  shows "argmax_from xs i b v < length (pre @ xs) \<and>
         (\<forall>j<length (pre @ xs). (pre @ xs) ! j \<le> (pre @ xs) ! argmax_from xs i b v)"
  using assms
proof (induction xs arbitrary: pre i b v)
  case Nil
  then show ?case by simp
next
  case (Cons x xs)
  show ?case
  proof (cases "v < x")
    case True
    have "argmax_from xs (Suc i) i x < length ((pre @ [x]) @ xs) \<and>
         (\<forall>j<length ((pre @ [x]) @ xs).
             ((pre @ [x]) @ xs) ! j \<le> ((pre @ [x]) @ xs) ! argmax_from xs (Suc i) i x)"
    proof (rule Cons.IH)
      show "Suc i = length (pre @ [x])" using Cons.prems by simp
      show "i < Suc i" by simp
      show "x = (pre @ [x]) ! i" using Cons.prems by simp
      show "\<forall>j<Suc i. (pre @ [x]) ! j \<le> x"
        using Cons.prems True by (auto simp: nth_append less_Suc_eq)
    qed
    with True show ?thesis by simp
  next
    case False
    have "argmax_from xs (Suc i) b v < length ((pre @ [x]) @ xs) \<and>
         (\<forall>j<length ((pre @ [x]) @ xs).
             ((pre @ [x]) @ xs) ! j \<le> ((pre @ [x]) @ xs) ! argmax_from xs (Suc i) b v)"
    proof (rule Cons.IH)
      show "Suc i = length (pre @ [x])" using Cons.prems by simp
      show "b < Suc i" using Cons.prems by simp
      show "v = (pre @ [x]) ! b" using Cons.prems by (simp add: nth_append)
      show "\<forall>j<Suc i. (pre @ [x]) ! j \<le> v"
        using Cons.prems False by (auto simp: nth_append less_Suc_eq)
    qed
    with False show ?thesis by simp
  qed
qed

lemma top1_max:
  assumes "data \<noteq> []"
  shows "\<exists>k<length data. top1 data = Inr k \<and> (\<forall>j<length data. data ! j \<le> data ! k)"
proof -
  from assms obtain x xs where d: "data = x # xs"
    by (cases data) auto
  have "argmax_from xs (Suc 0) 0 x < length ([x] @ xs) \<and>
        (\<forall>j<length ([x] @ xs). ([x] @ xs) ! j \<le> ([x] @ xs) ! argmax_from xs (Suc 0) 0 x)"
    by (rule argmax_from_max) simp_all
  then show ?thesis
    by (simp add: d top1_def)
qed

text \<open>
  Claim C3. For any probability distribution over the classes (at least one class, every
  probability between 0 and 1, every class index named), the extraction in \<^verbatim>\<open>diagnose\<close>
  returns the label of an entry whose probability is at least every entry's probability,
  with that probability times 100 as the confidence, which therefore lies between 0 and
  100; and whatever the confidence is, the diagnosis is shown with it: there is no
  threshold.
\<close>

theorem top1_extraction:
  assumes "probs r = Some data" and "data \<noteq> []"
    and "\<forall>p \<in> set data. 0 \<le> p \<and> p \<le> 1"
    and "\<forall>i<length data. map_of (names r) i \<noteq> None"
  shows "\<exists>k<length data. \<exists>label.
           map_of (names r) k = Some label \<and>
           extract_results (r # others) = Inr (label, data ! k * 100) \<and>
           (\<forall>j<length data. data ! j \<le> data ! k) \<and>
           0 \<le> data ! k * 100 \<and> data ! k * 100 \<le> 100 \<and>
           (\<forall>w. \<exists>shown. ui (snd (display_and_advise label (data ! k * 100) w)) =
                  ui w @ St_success [Txt ''**Diagnosis: '', Txt label, Txt ''** ('',
                                     Fixed1 (data ! k * 100), Txt ''%)''] # shown)"
proof -
  from top1_max [OF assms(2)] obtain k where
    k: "k < length data" "top1 data = Inr k" "\<forall>j<length data. data ! j \<le> data ! k"
    by blast
  from assms(4) k(1) obtain label where l: "map_of (names r) k = Some label"
    by auto
  from k(1) have "data ! k \<in> set data" by simp
  with assms(3) have b: "0 \<le> data ! k" "data ! k \<le> 1" by auto
  have "extract_results (r # others) = Inr (label, data ! k * 100)"
    by (simp add: extract_results_def assms(1) k(2) l dict_item_def top1conf_def)
  with k l b display_and_advise_reports show ?thesis by auto
qed

theorem top1_extraction_witness:
  "extract_results [\<lparr>names = [(0, ''Brown Spot''), (1, ''Khaira''), (2, ''Tungro'')],
                     probs = Some [0.3, 0.4, 0.3]\<rparr>] = Inr (''Khaira'', 40)"
proof -
  let ?r = "\<lparr>names = [(0, ''Brown Spot''), (1, ''Khaira''), (2, ''Tungro'')],
              probs = Some [0.3, 0.4, 0.3 :: real]\<rparr>"
  have "\<exists>k<length [0.3, 0.4, 0.3 :: real]. \<exists>label.
           map_of (names ?r) k = Some label \<and>
           extract_results (?r # []) = Inr (label, [0.3, 0.4, 0.3 :: real] ! k * 100) \<and>
           (\<forall>j<length [0.3, 0.4, 0.3 :: real]. [0.3, 0.4, 0.3 :: real] ! j \<le> [0.3, 0.4, 0.3 :: real] ! k) \<and>
           0 \<le> [0.3, 0.4, 0.3 :: real] ! k * 100 \<and> [0.3, 0.4, 0.3 :: real] ! k * 100 \<le> 100 \<and>
           (\<forall>w. \<exists>shown. ui (snd (display_and_advise label ([0.3, 0.4, 0.3 :: real] ! k * 100) w)) =
                  ui w @ St_success [Txt ''**Diagnosis: '', Txt label, Txt ''** ('',
                                     Fixed1 ([0.3, 0.4, 0.3 :: real] ! k * 100), Txt ''%)''] # shown)"
    by (rule top1_extraction) (simp_all add: less_Suc_eq numeral_3_eq_3)
  then show ?thesis
    by (simp add: extract_results_def top1_def top1conf_def dict_item_def)
qed

subsection \<open>Diagnosis and advice\<close>

lemma extract_unknown_label_result:
  "extract_results [unknown_label_result] = Inr (''Healthy'', 75)"
  by (simp add: unknown_label_result_def extract_results_def top1_def top1conf_def dict_item_def)

lemma extract_leaf_blast_result:
  "extract_results [leaf_blast_result] = Inr (''Leaf Blast'', 87)"
  by (simp add: leaf_blast_result_def extract_results_def top1_def top1conf_def dict_item_def)

lemma lookup_leaf_blast:
  "dict_get rice_consultant_literal ''Leaf Blast'' =
     Some [(''type'', ''Fungal Infection (Magnaporthe oryzae)''),
           (''cause'', ''Triggered by Excess Nitrogen (toxic).''),
           (''remedy'', ''Spray Tricyclazole 75 WP.''),
           (''prevention'', ''Avoid excess Urea. Split N application into 3-4 doses.'')]"
  by (simp add: dict_get_def rice_consultant_literal_def)

text \<open>
  Claim C6. When inference succeeds and the predicted label has no entry in the knowledge
  base, \<^verbatim>\<open>diagnose\<close> still succeeds: it shows the diagnosis with its confidence and then
  the message that no specific advice is available, and raises nothing.
\<close>

theorem absent_advice_is_not_an_error:
  assumes "staged_name e w = Inr p"
    and "0 < width img" and "0 < height img" and "mode img \<in> set RAWMODE"
    and "model w = Some h"
    and "predict e h (Encoded ''JPEG'' img) = Inr results"
    and "extract_results results = Inr (label, conf)"
    and "rice_consultant w = Some kb"
    and "dict_get kb label = None"
  shows "diagnose e img w =
    (Inr (),
     w\<lparr>ui := ui w @
            [St_image img [Txt ''Analyzing Leaf...''] True,
             St_spinner [Emoji ''U+1F916'', Txt '' AI is analyzing symptoms...''],
             St_success [Txt ''**Diagnosis: '', Txt label, Txt ''** ('', Fixed1 conf, Txt ''%)''],
             St_warning [Txt ''No specific advice available.''] ],
        calls := calls w @ [Predict h p]\<rparr>)"
  using assms
  by (simp add: diagnose_named display_and_advise_def Let_def st_def)

theorem absent_advice_is_not_an_error_witness:
  "diagnose (example_env (\<lambda>h c. Inr [unknown_label_result])) leaf_rgb loaded_world =
    (Inr (),
     loaded_world\<lparr>ui := ui loaded_world @
            [St_image leaf_rgb [Txt ''Analyzing Leaf...''] True,
             St_spinner [Emoji ''U+1F916'', Txt '' AI is analyzing symptoms...''],
             St_success [Txt ''**Diagnosis: '', Txt ''Healthy'', Txt ''** ('', Fixed1 75, Txt ''%)''],
             St_warning [Txt ''No specific advice available.''] ],
        calls := calls loaded_world @ [Predict (Handle 1) ''/tmp/tmpabcdefgh.jpg'']\<rparr>)"
  by (rule absent_advice_is_not_an_error
        [where kb = rice_consultant_literal and results = "[unknown_label_result]",
         OF example_staged_name])
     (simp_all add: leaf_rgb_fields RAWMODE_def loaded_world_fields example_env_fields
        extract_unknown_label_result dict_get_def rice_consultant_literal_def)

text \<open>
  Claim C7. For the distribution Leaf Blast 0.87, Brown Spot 0.09, Tungro 0.04 the
  extraction yields the label Leaf Blast with confidence 87, the knowledge base has a
  record for it whose remedy is \<^verbatim>\<open>Spray Tricyclazole 75 WP.\<close>, and \<^verbatim>\<open>diagnose\<close> shows
  exactly this diagnosis and this record.
\<close>

theorem leaf_blast_scenario:
  assumes "staged_name e w = Inr p"
    and "0 < width img" and "0 < height img" and "mode img \<in> set RAWMODE"
    and "model w = Some h"
    and "predict e h (Encoded ''JPEG'' img) = Inr [leaf_blast_result]"
    and "rice_consultant w = Some rice_consultant_literal"
  shows "extract_results [leaf_blast_result] = Inr (''Leaf Blast'', 87) \<and>
    (\<exists>advice. dict_get rice_consultant_literal ''Leaf Blast'' = Some advice \<and>
               dict_item advice ''remedy'' = Inr ''Spray Tricyclazole 75 WP.'') \<and>
    diagnose e img w =
    (Inr (),
     w\<lparr>ui := ui w @
            [St_image img [Txt ''Analyzing Leaf...''] True,
             St_spinner [Emoji ''U+1F916'', Txt '' AI is analyzing symptoms...''],
             St_success [Txt ''**Diagnosis: '', Txt ''Leaf Blast'', Txt ''** ('', Fixed1 87, Txt ''%)''],
             St_expander [Emoji ''U+1F4CB'', Txt '' View Treatment Plan''] True,
             St_markdown [Txt ''**Type:** '', Txt ''Fungal Infection (Magnaporthe oryzae)''],
             St_error [Txt ''**'', Emoji ''U+274C'', Txt '' Root Cause:** '',
                       Txt ''Triggered by Excess Nitrogen (toxic).''],
             St_success [Txt ''**'', Emoji ''U+1F48A'', Txt '' Remedy:** '',
                         Txt ''Spray Tricyclazole 75 WP.''],
             St_info [Txt ''**'', Emoji ''U+1F6E1 U+FE0F'', Txt '' Prevention:** '',
                      Txt ''Avoid excess Urea. Split N application into 3-4 doses.''] ],
        calls := calls w @ [Predict h p]\<rparr>)"
proof -
  have shown: "display_and_advise ''Leaf Blast'' 87 w2 =
      (Inr (), w2\<lparr>ui := ui w2 @
            [St_success [Txt ''**Diagnosis: '', Txt ''Leaf Blast'', Txt ''** ('', Fixed1 87, Txt ''%)''],
             St_expander [Emoji ''U+1F4CB'', Txt '' View Treatment Plan''] True,
             St_markdown [Txt ''**Type:** '', Txt ''Fungal Infection (Magnaporthe oryzae)''],
             St_error [Txt ''**'', Emoji ''U+274C'', Txt '' Root Cause:** '',
                       Txt ''Triggered by Excess Nitrogen (toxic).''],
             St_success [Txt ''**'', Emoji ''U+1F48A'', Txt '' Remedy:** '',
                         Txt ''Spray Tricyclazole 75 WP.''],
             St_info [Txt ''**'', Emoji ''U+1F6E1 U+FE0F'', Txt '' Prevention:** '',
                      Txt ''Avoid excess Urea. Split N application into 3-4 doses.''] ]\<rparr>)"
    if "rice_consultant w2 = Some rice_consultant_literal" for w2
    using that
    by (simp add: display_and_advise_def lookup_leaf_blast show_advice_def dict_item_def
          Let_def st_def)
  have "\<exists>advice. dict_get rice_consultant_literal ''Leaf Blast'' = Some advice \<and>
               dict_item advice ''remedy'' = Inr ''Spray Tricyclazole 75 WP.''"
    by (simp add: lookup_leaf_blast dict_item_def)
  moreover have "diagnose e img w =
      display_and_advise ''Leaf Blast'' 87
        (w\<lparr>ui := ui w @ [St_image img [Txt ''Analyzing Leaf...''] True,
                          St_spinner [Emoji ''U+1F916'', Txt '' AI is analyzing symptoms...''] ],
           calls := calls w @ [Predict h p]\<rparr>)"
    using assms by (simp add: diagnose_named extract_leaf_blast_result Let_def)
  ultimately show ?thesis
    using assms(7) by (simp add: shown extract_leaf_blast_result)
qed

theorem leaf_blast_scenario_witness:
  "fst (diagnose (example_env (\<lambda>h c. Inr [leaf_blast_result])) leaf_rgb loaded_world) = Inr () \<and>
   St_success [Txt ''**Diagnosis: '', Txt ''Leaf Blast'', Txt ''** ('', Fixed1 87, Txt ''%)'']
     \<in> set (ui (snd (diagnose (example_env (\<lambda>h c. Inr [leaf_blast_result])) leaf_rgb loaded_world))) \<and>
   St_success [Txt ''**'', Emoji ''U+1F48A'', Txt '' Remedy:** '', Txt ''Spray Tricyclazole 75 WP.'']
     \<in> set (ui (snd (diagnose (example_env (\<lambda>h c. Inr [leaf_blast_result])) leaf_rgb loaded_world)))"
proof -
  have "staged_name (example_env (\<lambda>h c. Inr [leaf_blast_result])) loaded_world =
          Inr ''/tmp/tmpabcdefgh.jpg''"
    by (rule example_staged_name)
  then show ?thesis
    using leaf_blast_scenario
      [of "example_env (\<lambda>h c. Inr [leaf_blast_result])" loaded_world
          "''/tmp/tmpabcdefgh.jpg''" leaf_rgb "Handle 1"]
    by (simp add: leaf_rgb_fields RAWMODE_def loaded_world_fields example_env_fields)
qed

subsection \<open>What a run of the script keeps\<close>

lemma diagnose_constructs:
  "filter is_construct (calls (snd (diagnose e img w))) = filter is_construct (calls w)"
  using diagnose_calls [of e img w] by auto

lemma tab1_frame:
  "model (snd (tab1 e inp w)) = model w \<and>
   resource_cache (snd (tab1 e inp w)) = resource_cache w \<and>
   rice_consultant (snd (tab1 e inp w)) = rice_consultant w \<and>
   filter is_construct (calls (snd (tab1 e inp w))) = filter is_construct (calls w)"
  by (simp add: tab1_def Let_def st_def diagnose_frame diagnose_constructs
        split: option.splits sum.splits)

lemma tab2_frame:
  "model (snd (tab2 e inp w)) = model w \<and>
   resource_cache (snd (tab2 e inp w)) = resource_cache w \<and>
   rice_consultant (snd (tab2 e inp w)) = rice_consultant w \<and>
   filter is_construct (calls (snd (tab2 e inp w))) = filter is_construct (calls w)"
  by (simp add: tab2_def Let_def st_def diagnose_frame diagnose_constructs
        split: option.splits sum.splits)

lemma load_model_cached:
  "resource_cache w = Some h \<Longrightarrow> load_model e w = (Inr h, w)"
  by (simp add: load_model_def)

lemma after_tabs:
  "rice_consultant (snd (case tab1 e inp w of
       (Inl x, w9) \<Rightarrow> (Raised x, w9)
     | (Inr u, w9) \<Rightarrow>
         (case tab2 e inp w9 of
            (Inl x, w10) \<Rightarrow> (Raised x, w10)
          | (Inr u, w10) \<Rightarrow> (Completed, w10)))) = rice_consultant w \<and>
   resource_cache (snd (case tab1 e inp w of
       (Inl x, w9) \<Rightarrow> (Raised x, w9)
     | (Inr u, w9) \<Rightarrow>
         (case tab2 e inp w9 of
            (Inl x, w10) \<Rightarrow> (Raised x, w10)
          | (Inr u, w10) \<Rightarrow> (Completed, w10)))) = resource_cache w \<and>
   filter is_construct (calls (snd (case tab1 e inp w of
       (Inl x, w9) \<Rightarrow> (Raised x, w9)
     | (Inr u, w9) \<Rightarrow>
         (case tab2 e inp w9 of
            (Inl x, w10) \<Rightarrow> (Raised x, w10)
          | (Inr u, w10) \<Rightarrow> (Completed, w10))))) = filter is_construct (calls w)"
proof -
  obtain r1 w9 where t1: "tab1 e inp w = (r1, w9)" by (cases "tab1 e inp w")
  obtain r2 w10 where t2: "tab2 e inp w9 = (r2, w10)" by (cases "tab2 e inp w9")
  from tab1_frame [of e inp w] t1 have f1:
    "rice_consultant w9 = rice_consultant w" "resource_cache w9 = resource_cache w"
    "filter is_construct (calls w9) = filter is_construct (calls w)" by simp_all
  from tab2_frame [of e inp w9] t2 have f2:
    "rice_consultant w10 = rice_consultant w9" "resource_cache w10 = resource_cache w9"
    "filter is_construct (calls w10) = filter is_construct (calls w9)" by simp_all
  show ?thesis
    by (cases r1; cases r2) (simp_all add: t1 t2 f1 f2)
qed

lemma run_script_knowledge_base:
  "rice_consultant (snd (run_script e inp w)) = Some rice_consultant_literal"
proof -
  let ?w5 = "st (St_info [Emoji ''U+1F4A1'', Txt '' Point camera at leaf for instant analysis.''])
      (st (St_markdown [Txt ''**Real-time Diagnostic System**''])
        (st (St_title [Emoji ''U+1F33E'', Txt '' Rice Doctor AI''])
          ((st (St_set_page_config [Txt ''Rice Doctor AI''] [Emoji ''U+1F33E''])
             (w\<lparr>model := None, rice_consultant := None\<rparr>))
           \<lparr>rice_consultant := Some rice_consultant_literal\<rparr>)))"
  obtain r w6 where l: "load_model e ?w5 = (r, w6)" by (cases "load_model e ?w5")
  then have k: "rice_consultant w6 = Some rice_consultant_literal"
    by (auto simp: load_model_def st_def split: option.splits sum.splits)
  show ?thesis
  proof (cases r)
    case (Inl x)
    with l k show ?thesis by (simp add: run_script_def Let_def) (simp add: st_def)
  next
    case (Inr h)
    with l k show ?thesis
      by (simp add: run_script_def Let_def after_tabs) (simp add: st_def)
  qed
qed

lemma run_script_cached:
  assumes "resource_cache w = Some h"
  shows "resource_cache (snd (run_script e inp w)) = Some h \<and>
         filter is_construct (calls (snd (run_script e inp w))) = filter is_construct (calls w)"
proof -
  let ?w5 = "st (St_info [Emoji ''U+1F4A1'', Txt '' Point camera at leaf for instant analysis.''])
      (st (St_markdown [Txt ''**Real-time Diagnostic System**''])
        (st (St_title [Emoji ''U+1F33E'', Txt '' Rice Doctor AI''])
          ((st (St_set_page_config [Txt ''Rice Doctor AI''] [Emoji ''U+1F33E''])
             (w\<lparr>model := None, rice_consultant := None\<rparr>))
           \<lparr>rice_consultant := Some rice_consultant_literal\<rparr>)))"
  have c: "resource_cache ?w5 = Some h" using assms by (simp add: st_def)
  have l: "load_model e ?w5 = (Inr h, ?w5)" using c by (rule load_model_cached)
  show ?thesis
    using assms by (simp add: run_script_def Let_def l after_tabs) (simp add: st_def)
qed

lemma run_session_cached:
  "resource_cache w = Some h \<Longrightarrow>
     resource_cache (run_session e inps w) = Some h \<and>
     filter is_construct (calls (run_session e inps w)) = filter is_construct (calls w)"
proof (induction inps arbitrary: w)
  case Nil
  then show ?case by simp
next
  case (Cons inp inps)
  from run_script_cached [OF Cons.prems, of e inp]
  have s: "resource_cache (snd (run_script e inp w)) = Some h"
    and c: "filter is_construct (calls (snd (run_script e inp w))) = filter is_construct (calls w)"
    by simp_all
  from Cons.IH [OF s] c show ?case by simp
qed

subsection \<open>Loading the model\<close>

lemma run_script_load_fails:
  assumes "resource_cache w = None" and "YOLO e (calls w) ''best.pt'' = Inl x"
  shows "run_script e inp w =
    (Stopped,
     w\<lparr>model := None,
        rice_consultant := Some rice_consultant_literal,
        ui := ui w @
          [St_set_page_config [Txt ''Rice Doctor AI''] [Emoji ''U+1F33E''],
           St_title [Emoji ''U+1F33E'', Txt '' Rice Doctor AI''],
           St_markdown [Txt ''**Real-time Diagnostic System**''],
           St_info [Emoji ''U+1F4A1'', Txt '' Point camera at leaf for instant analysis.''],
           St_error [Emoji ''U+26A0 U+FE0F'',
                     Txt '' Model not found! Please run the 'Move Model' code first.''],
           St_stop],
        calls := calls w @ [Construct ''best.pt'']\<rparr>)"
  using assms by (simp add: run_script_def load_model_def Let_def st_def)

lemma run_session_never_loads:
  assumes never: "\<forall>before. \<exists>x. YOLO e before ''best.pt'' = Inl x"
    and empty: "resource_cache w = None"
  shows "resource_cache (run_session e inps w) = None \<and>
     files (run_session e inps w) = files w \<and>
     filter is_predict (calls (run_session e inps w)) = filter is_predict (calls w)"
  using empty
proof (induction inps arbitrary: w)
  case Nil
  then show ?case by simp
next
  case (Cons inp inps)
  from never obtain x where x: "YOLO e (calls w) ''best.pt'' = Inl x" by blast
  have r: "snd (run_script e inp w) =
      w\<lparr>model := None,
        rice_consultant := Some rice_consultant_literal,
        ui := ui w @
          [St_set_page_config [Txt ''Rice Doctor AI''] [Emoji ''U+1F33E''],
           St_title [Emoji ''U+1F33E'', Txt '' Rice Doctor AI''],
           St_markdown [Txt ''**Real-time Diagnostic System**''],
           St_info [Emoji ''U+1F4A1'', Txt '' Point camera at leaf for instant analysis.''],
           St_error [Emoji ''U+26A0 U+FE0F'',
                     Txt '' Model not found! Please run the 'Move Model' code first.''],
           St_stop],
        calls := calls w @ [Construct ''best.pt'']\<rparr>"
    by (simp add: run_script_load_fails [OF Cons.prems x])
  have s: "resource_cache (snd (run_script e inp w)) = None"
    "files (snd (run_script e inp w)) = files w"
    "filter is_predict (calls (snd (run_script e inp w))) = filter is_predict (calls w)"
    using Cons.prems by (simp_all add: r)
  from Cons.IH [OF s(1)] s(2,3) show ?case by simp
qed

lemma run_session_attempts:
  assumes never: "\<forall>before. \<exists>x. YOLO e before ''best.pt'' = Inl x"
    and empty: "resource_cache w = None"
  shows "calls (run_session e inps w) = calls w @ replicate (length inps) (Construct ''best.pt'')"
  using empty
proof (induction inps arbitrary: w)
  case Nil
  then show ?case by simp
next
  case (Cons inp inps)
  from never obtain x where x: "YOLO e (calls w) ''best.pt'' = Inl x" by blast
  have s: "resource_cache (snd (run_script e inp w)) = None"
    "calls (snd (run_script e inp w)) = calls w @ [Construct ''best.pt'']"
    using Cons.prems by (simp_all add: run_script_load_fails [OF Cons.prems x])
  from Cons.IH [OF s(1)] s(2) show ?case by (simp add: replicate_app_Cons_same)
qed

text \<open>
  Claim C5, as the code has it. If the model cannot be loaded in a run of the script, that
  run serves no diagnosis: it attempts the load once, shows the error message and stops at
  \<^verbatim>\<open>st.stop()\<close>, before any tab is drawn, any file staged or any inference made. The
  failure is not remembered: every later run of the script in the process attempts the
  load again, once. As long as the model cannot be loaded, every run stops in this way and
  no inference is ever made.
\<close>

theorem load_failure_stops_the_run:
  assumes "resource_cache w = None" and "YOLO e (calls w) ''best.pt'' = Inl x"
  shows "run_script e inp w =
    (Stopped,
     w\<lparr>model := None,
        rice_consultant := Some rice_consultant_literal,
        ui := ui w @
          [St_set_page_config [Txt ''Rice Doctor AI''] [Emoji ''U+1F33E''],
           St_title [Emoji ''U+1F33E'', Txt '' Rice Doctor AI''],
           St_markdown [Txt ''**Real-time Diagnostic System**''],
           St_info [Emoji ''U+1F4A1'', Txt '' Point camera at leaf for instant analysis.''],
           St_error [Emoji ''U+26A0 U+FE0F'',
                     Txt '' Model not found! Please run the 'Move Model' code first.''],
           St_stop],
        calls := calls w @ [Construct ''best.pt'']\<rparr>) \<and>
    ((\<forall>before. \<exists>y. YOLO e before ''best.pt'' = Inl y) \<longrightarrow>
       (\<forall>inps inp2.
          files (run_session e inps w) = files w \<and>
          calls (run_session e inps w) =
            calls w @ replicate (length inps) (Construct ''best.pt'') \<and>
          filter is_predict (calls (run_session e inps w)) = filter is_predict (calls w) \<and>
          fst (run_script e inp2 (run_session e inps w)) = Stopped))"
proof -
  have "files (run_session e inps w) = files w \<and>
        calls (run_session e inps w) = calls w @ replicate (length inps) (Construct ''best.pt'') \<and>
        filter is_predict (calls (run_session e inps w)) = filter is_predict (calls w) \<and>
        fst (run_script e inp2 (run_session e inps w)) = Stopped"
    if never: "\<forall>before. \<exists>y. YOLO e before ''best.pt'' = Inl y" for inps inp2
  proof -
    from run_session_never_loads [OF never assms(1), of inps]
    have k: "resource_cache (run_session e inps w) = None"
      "files (run_session e inps w) = files w"
      "filter is_predict (calls (run_session e inps w)) = filter is_predict (calls w)"
      by simp_all
    note a = run_session_attempts [OF never assms(1), of inps]
    from never obtain y where "YOLO e (calls (run_session e inps w)) ''best.pt'' = Inl y"
      by blast
    from run_script_load_fails [OF k(1) this, of inp2] k a show ?thesis by simp
  qed
  with run_script_load_fails [OF assms, of inp] show ?thesis by blast
qed

theorem load_failure_stops_the_run_witness:
  "fst (run_script missing_model_env camera_shot fresh_world) = Stopped \<and>
   calls (snd (run_script missing_model_env camera_shot fresh_world)) = [Construct ''best.pt''] \<and>
   files (run_session missing_model_env [camera_shot, camera_shot] fresh_world) = Map.empty \<and>
   calls (run_session missing_model_env [camera_shot, camera_shot] fresh_world) =
     [Construct ''best.pt'', Construct ''best.pt'']"
proof -
  have c: "resource_cache fresh_world = None" by (simp add: fresh_world_def)
  have y: "YOLO missing_model_env (calls fresh_world) ''best.pt'' = Inl FileNotFoundError"
    by (simp add: missing_model_env_def)
  have n: "\<forall>before. \<exists>y. YOLO missing_model_env before ''best.pt'' = Inl y"
    by (simp add: missing_model_env_def)
  note t = load_failure_stops_the_run [OF c y, of camera_shot]
  from t have one: "fst (run_script missing_model_env camera_shot fresh_world) = Stopped"
    "calls (snd (run_script missing_model_env camera_shot fresh_world)) = [Construct ''best.pt'']"
    by (simp_all add: fresh_world_def)
  from t n have "files (run_session missing_model_env [camera_shot, camera_shot] fresh_world) =
      files fresh_world \<and>
    calls (run_session missing_model_env [camera_shot, camera_shot] fresh_world) =
      calls fresh_world @ replicate (length [camera_shot, camera_shot]) (Construct ''best.pt'')"
    by blast
  then have two:
    "files (run_session missing_model_env [camera_shot, camera_shot] fresh_world) = Map.empty"
    "calls (run_session missing_model_env [camera_shot, camera_shot] fresh_world) =
       [Construct ''best.pt'', Construct ''best.pt'']"
    by (simp_all add: fresh_world_def numeral_2_eq_2 del: run_session.simps)
  from one two show ?thesis by blast
qed

lemma restored_model_env_fields:
  "YOLO restored_model_env =
     (\<lambda>before path. if before = [] then Inl FileNotFoundError else Inr (Handle 1))"
  "predict restored_model_env = (\<lambda>h c. Inr [leaf_blast_result])"
  "Image_open restored_model_env = (\<lambda>f. Inr leaf_rgb)"
  by (simp_all add: restored_model_env_def)

lemma restored_staged_name:
  "files w = Map.empty \<Longrightarrow> staged_name restored_model_env w = Inr ''/tmp/tmpabcdefgh.jpg''"
  by (simp add: staged_name_def restored_model_env_def random_name_def characters_def)

lemma restored_first_run:
  "run_script restored_model_env camera_shot fresh_world =
    (Stopped,
     fresh_world\<lparr>model := None,
        rice_consultant := Some rice_consultant_literal,
        ui := ui fresh_world @
          [St_set_page_config [Txt ''Rice Doctor AI''] [Emoji ''U+1F33E''],
           St_title [Emoji ''U+1F33E'', Txt '' Rice Doctor AI''],
           St_markdown [Txt ''**Real-time Diagnostic System**''],
           St_info [Emoji ''U+1F4A1'', Txt '' Point camera at leaf for instant analysis.''],
           St_error [Emoji ''U+26A0 U+FE0F'',
                     Txt '' Model not found! Please run the 'Move Model' code first.''],
           St_stop],
        calls := calls fresh_world @ [Construct ''best.pt'']\<rparr>)"
  by (rule run_script_load_fails)
     (simp_all add: fresh_world_fields restored_model_env_fields)

lemma restored_second_run:
  assumes "files w = Map.empty" and "resource_cache w = None" and "calls w = [Construct ''best.pt'']"
  shows "fst (run_script restored_model_env camera_shot w) = Completed \<and>
         calls (snd (run_script restored_model_env camera_shot w)) =
           [Construct ''best.pt'', Construct ''best.pt'',
            Predict (Handle 1) ''/tmp/tmpabcdefgh.jpg''] \<and>
         St_success [Txt ''**Diagnosis: '', Txt ''Leaf Blast'', Txt ''** ('', Fixed1 87, Txt ''%)'']
           \<in> set (ui (snd (run_script restored_model_env camera_shot w)))"
proof -
  have d: "diagnose restored_model_env leaf_rgb w1 =
      display_and_advise ''Leaf Blast'' 87
        (w1\<lparr>ui := ui w1 @ [St_image leaf_rgb [Txt ''Analyzing Leaf...''] True,
                          St_spinner [Emoji ''U+1F916'', Txt '' AI is analyzing symptoms...''] ],
           calls := calls w1 @ [Predict (Handle 1) ''/tmp/tmpabcdefgh.jpg'']\<rparr>)"
    if "files w1 = Map.empty" and "model w1 = Some (Handle 1)" for w1
    using that
    by (simp add: diagnose_named [OF restored_staged_name] leaf_rgb_fields RAWMODE_def
          restored_model_env_fields extract_leaf_blast_result Let_def)
  show ?thesis
    using assms
    by (simp add: run_script_def load_model_def tab1_def tab2_def camera_shot_def Let_def
          restored_model_env_fields d st_def display_and_advise_def lookup_leaf_blast
          show_advice_def dict_item_def)
qed

text \<open>
  Claim C5 as stated says that after a failed load the process serves no diagnosis and
  does not try again. It does both: with \<^verbatim>\<open>best.pt\<close> missing at the first run and in place
  at the second, the first run stops on the error, and the second run of the same process
  constructs the model again and completes a diagnosis.
\<close>

theorem load_failure_is_retried_counterexample:
  "fst (run_script restored_model_env camera_shot fresh_world) = Stopped \<and>
   calls (snd (run_script restored_model_env camera_shot fresh_world)) = [Construct ''best.pt''] \<and>
   fst (run_script restored_model_env camera_shot
          (snd (run_script restored_model_env camera_shot fresh_world))) = Completed \<and>
   calls (snd (run_script restored_model_env camera_shot
          (snd (run_script restored_model_env camera_shot fresh_world)))) =
     [Construct ''best.pt'', Construct ''best.pt'', Predict (Handle 1) ''/tmp/tmpabcdefgh.jpg''] \<and>
   St_success [Txt ''**Diagnosis: '', Txt ''Leaf Blast'', Txt ''** ('', Fixed1 87, Txt ''%)'']
     \<in> set (ui (snd (run_script restored_model_env camera_shot
          (snd (run_script restored_model_env camera_shot fresh_world)))))"
proof -
  let ?w1 = "snd (run_script restored_model_env camera_shot fresh_world)"
  have w1: "files ?w1 = Map.empty" "resource_cache ?w1 = None" "calls ?w1 = [Construct ''best.pt'']"
    by (simp_all add: restored_first_run fresh_world_fields)
  from restored_second_run [OF w1] w1(3) show ?thesis
    by (simp add: restored_first_run)
qed

text \<open>
  Claim C4. Loading the model is idempotent within a process: the first call of
  \<^verbatim>\<open>load_model\<close> constructs the model from \<^verbatim>\<open>best.pt\<close> and caches it; every later call,
  in the same run or after any number of further runs of the script, returns the same
  model, and no second construction is ever made.
\<close>

theorem load_model_is_idempotent:
  assumes "resource_cache w = None" and "load_model e w = (Inr h, w')"
  shows "YOLO e (calls w) ''best.pt'' = Inr h \<and>
         w' = w\<lparr>calls := calls w @ [Construct ''best.pt''], resource_cache := Some h\<rparr> \<and>
         load_model e w' = (Inr h, w') \<and>
         (\<forall>e2 inps.
            load_model e2 (run_session e2 inps w') = (Inr h, run_session e2 inps w') \<and>
            filter is_construct (calls (run_session e2 inps w')) = filter is_construct (calls w'))"
proof -
  from assms have y: "YOLO e (calls w) ''best.pt'' = Inr h"
    by (auto simp: load_model_def split: sum.splits)
  with assms have w': "w' = w\<lparr>calls := calls w @ [Construct ''best.pt''], resource_cache := Some h\<rparr>"
    by (simp add: load_model_def)
  then have c: "resource_cache w' = Some h" by simp
  have "load_model e2 (run_session e2 inps w') = (Inr h, run_session e2 inps w') \<and>
        filter is_construct (calls (run_session e2 inps w')) = filter is_construct (calls w')"
    for e2 inps
    using run_session_cached [OF c, of e2 inps] by (simp add: load_model_cached)
  with y w' load_model_cached [OF c, of e] show ?thesis by blast
qed

theorem load_model_is_idempotent_witness:
  "load_model (example_env (\<lambda>h c. Inr [leaf_blast_result])) fresh_world =
     (Inr (Handle 1),
      fresh_world\<lparr>calls := [Construct ''best.pt''], resource_cache := Some (Handle 1)\<rparr>) \<and>
   load_model (example_env (\<lambda>h c. Inr [leaf_blast_result]))
      (fresh_world\<lparr>calls := [Construct ''best.pt''], resource_cache := Some (Handle 1)\<rparr>) =
     (Inr (Handle 1),
      fresh_world\<lparr>calls := [Construct ''best.pt''], resource_cache := Some (Handle 1)\<rparr>)"
proof -
  have c: "resource_cache fresh_world = None" by (simp add: fresh_world_def)
  have l: "load_model (example_env (\<lambda>h c. Inr [leaf_blast_result])) fresh_world =
     (Inr (Handle 1),
      fresh_world\<lparr>calls := [Construct ''best.pt''], resource_cache := Some (Handle 1)\<rparr>)"
    by (simp add: load_model_def example_env_fields fresh_world_fields)
  from load_model_is_idempotent [OF c l] l show ?thesis by (simp add: fresh_world_fields)
qed

subsection \<open>What \<^verbatim>\<open>diagnose\<close> leaves alone\<close>
















text \<open>
  Claim C9. The knowledge base is never changed after it is built: a call of \<^verbatim>\<open>diagnose\<close>
  leaves \<^verbatim>\<open>rice_consultant\<close> as it was on every path, and after a run of the script, and
  after any number of runs, it is the table of the source literal.
\<close>

theorem knowledge_base_is_never_changed:
  "rice_consultant (snd (diagnose e img w)) = rice_consultant w \<and>
   rice_consultant (snd (run_script e inp w)) = Some rice_consultant_literal \<and>
   rice_consultant (run_session e (inp # inps) w) = Some rice_consultant_literal"
proof -
  have "rice_consultant (run_session e inps w0) = Some rice_consultant_literal"
    if "rice_consultant w0 = Some rice_consultant_literal" for w0
    using that by (induction inps arbitrary: w0) (simp_all add: run_script_knowledge_base)
  then show ?thesis
    by (simp add: diagnose_frame run_script_knowledge_base)
qed

end
